theory Spec2Isabelle
  imports Main "HOL-Library.Word"
begin

section \<open>fine-auth: credential hashing, session tokens and the session lifecycle\<close>

text \<open>
  A shallow embedding of \<^verbatim>\<open>src/crypto.ts\<close>, \<^verbatim>\<open>src/auth.ts\<close>, \<^verbatim>\<open>src/errors.ts\<close> and the
  in-memory adapter (\<^verbatim>\<open>createMemoryAdapter\<close>).

  Conventions of the model:
  \<^item> a JavaScript string is a \<open>string\<close> of code points below 256;
  \<^item> a \<^verbatim>\<open>Buffer\<close> is a list of bytes (\<open>8 word\<close>);
  \<^item> a \<^verbatim>\<open>Date\<close> is its millisecond count, an \<open>int\<close>;
  \<^item> a rejected promise or a thrown exception is \<open>Inl e\<close>, a fulfilled one \<open>Inr v\<close>;
  \<^item> the primitives of \<^verbatim>\<open>node:crypto\<close> that the repository only calls (HMAC-SHA256, scrypt)
    are parameters of the functions that call them; the random bytes and the clock
    readings an operation consumes are passed to it in an \<open>env\<close> record.
\<close>

subsection \<open>Errors (\<^verbatim>\<open>src/errors.ts\<close>)\<close>

type_synonym byte = "8 word"

datatype error =
    FineAuthError (err_name: string) (err_code: string) (err_message: string)
  | RangeError string
  | NodeError string

definition InvalidCredentialsError :: error where
  "InvalidCredentialsError =
     FineAuthError ''InvalidCredentialsError'' ''INVALID_CREDENTIALS'' ''Invalid email or password''"

definition UserAlreadyExistsError :: error where
  "UserAlreadyExistsError =
     FineAuthError ''UserAlreadyExistsError'' ''USER_ALREADY_EXISTS''
       ''A user with this email already exists''"


subsection \<open>String and buffer primitives of the runtime\<close>

text \<open>\<^verbatim>\<open>String.prototype.split\<close> with a one-character separator: \<open>n\<close> separators give
  \<open>n + 1\<close> parts, the empty string gives one empty part.\<close>

fun str_split :: "char \<Rightarrow> string \<Rightarrow> string list" where
  "str_split c [] = [[]]"
| "str_split c (x # xs) =
     (if x = c then [] # str_split c xs
      else (case str_split c xs of [] \<Rightarrow> [[x]] | p # ps \<Rightarrow> (x # p) # ps))"

text \<open>\<^verbatim>\<open>buf.toString("hex")\<close>: two lower-case digits per byte.\<close>

definition hex_digit :: "nat \<Rightarrow> char" where
  "hex_digit n = ''0123456789abcdef'' ! n"

definition hex_of_byte :: "byte \<Rightarrow> string" where
  "hex_of_byte b = [hex_digit (unat b div 16), hex_digit (unat b mod 16)]"

definition to_hex :: "byte list \<Rightarrow> string" where
  "to_hex bs = concat (map hex_of_byte bs)"

text \<open>\<^verbatim>\<open>Buffer.from(s, "hex")\<close>: decodes pairs of hex digits (either case) and stops at
  the first pair that is not one; a trailing single character is dropped. It does not throw.\<close>

definition hex_val :: "char \<Rightarrow> nat option" where
  "hex_val c =
     (let n = (of_char c :: nat) in
      if 48 \<le> n \<and> n \<le> 57 then Some (n - 48)
      else if 97 \<le> n \<and> n \<le> 102 then Some (n - 87)
      else if 65 \<le> n \<and> n \<le> 70 then Some (n - 55)
      else None)"

fun from_hex :: "string \<Rightarrow> byte list" where
  "from_hex (a # b # rest) =
     (case hex_val a of
        None \<Rightarrow> []
      | Some x \<Rightarrow> (case hex_val b of
                     None \<Rightarrow> []
                   | Some y \<Rightarrow> of_nat (16 * x + y) # from_hex rest))"
| "from_hex [a] = []"
| "from_hex [] = []"

text \<open>\<^verbatim>\<open>Buffer.from(s)\<close>: the UTF-8 bytes of the string (one byte below 128, two bytes
  for the code points 128 to 255).\<close>

definition utf8_char :: "char \<Rightarrow> byte list" where
  "utf8_char c =
     (let n = (of_char c :: nat) in
      if n < 128 then [of_nat n] else [of_nat (192 + n div 64), of_nat (128 + n mod 64)])"

definition Buffer_from :: "string \<Rightarrow> byte list" where
  "Buffer_from s = concat (map utf8_char s)"

text \<open>\<^verbatim>\<open>crypto.timingSafeEqual\<close>: throws a RangeError when the two buffers differ in length.\<close>

definition timingSafeEqual :: "byte list \<Rightarrow> byte list \<Rightarrow> error + bool" where
  "timingSafeEqual a b =
     (if length a \<noteq> length b
      then Inl (RangeError ''Input buffers must have the same byte length'')
      else Inr (a = b))"

text \<open>\<^verbatim>\<open>digest("base64url")\<close>: base64 over the URL-safe alphabet, without padding.\<close>

definition b64url_alphabet :: string where
  "b64url_alphabet = ''ABCDEFGHIJKLMNOPQRSTUVWXYZabcdefghijklmnopqrstuvwxyz0123456789-_''"

definition b64 :: "nat \<Rightarrow> char" where
  "b64 n = b64url_alphabet ! n"

fun base64url :: "byte list \<Rightarrow> string" where
  "base64url (a # b # c # rest) =
     [b64 (unat a div 4),
      b64 ((unat a mod 4) * 16 + unat b div 16),
      b64 ((unat b mod 16) * 4 + unat c div 64),
      b64 (unat c mod 64)] @ base64url rest"
| "base64url [a, b] =
     [b64 (unat a div 4),
      b64 ((unat a mod 4) * 16 + unat b div 16),
      b64 ((unat b mod 16) * 4)]"
| "base64url [a] = [b64 (unat a div 4), b64 ((unat a mod 4) * 16)]"
| "base64url [] = []"

text \<open>The 32 bytes of a SHA-256 digest, most significant byte first.\<close>

definition digest_bytes :: "256 word \<Rightarrow> byte list" where
  "digest_bytes d = map (\<lambda>i. ucast (drop_bit (8 * (31 - i)) d)) [0..<32]"

text \<open>\<^verbatim>\<open>String.prototype.trim\<close> and \<^verbatim>\<open>toLowerCase\<close> on code points below 256.\<close>

definition is_space :: "char \<Rightarrow> bool" where
  "is_space c = ((of_char c :: nat) \<in> {9, 10, 11, 12, 13, 32, 160})"

definition trim :: "string \<Rightarrow> string" where
  "trim s = rev (dropWhile is_space (rev (dropWhile is_space s)))"

definition lower_char :: "char \<Rightarrow> char" where
  "lower_char c =
     (let n = (of_char c :: nat) in
      if (65 \<le> n \<and> n \<le> 90) \<or> (192 \<le> n \<and> n \<le> 222 \<and> n \<noteq> 215)
      then char_of (n + 32) else c)"

definition toLowerCase :: "string \<Rightarrow> string" where
  "toLowerCase s = map lower_char s"

subsection \<open>Credential hasher and identifiers (\<^verbatim>\<open>src/crypto.ts\<close>)\<close>

text \<open>\<open>scrypt password salt keylen\<close> stands for the promise wrapper around
  \<^verbatim>\<open>crypto.scrypt\<close>: \<open>Inl\<close> when the callback reports an error.\<close>

type_synonym scrypt_fn = "string \<Rightarrow> byte list \<Rightarrow> nat \<Rightarrow> error + byte list"

text \<open>\<open>salt\<close> is the value of \<^verbatim>\<open>randomBytes(16)\<close>.\<close>

definition hashPassword :: "scrypt_fn \<Rightarrow> byte list \<Rightarrow> string \<Rightarrow> error + string" where
  "hashPassword scrypt salt password =
     (case scrypt password salt 64 of
        Inl e \<Rightarrow> Inl e
      | Inr derivedKey \<Rightarrow> Inr (to_hex salt @ '':'' @ to_hex derivedKey))"

text \<open>The body of the \<^verbatim>\<open>try\<close> block of \<^verbatim>\<open>verifyPassword\<close>.\<close>

definition verifyPassword_try :: "scrypt_fn \<Rightarrow> string \<Rightarrow> string \<Rightarrow> error + bool" where
  "verifyPassword_try scrypt password storedHash =
     (let parts = str_split CHR '':'' storedHash in
      if length parts \<noteq> 2 \<or> parts ! 0 = [] \<or> parts ! 1 = [] then Inr False
      else
        let saltHex = parts ! 0;
            hashHex = parts ! 1;
            salt = from_hex saltHex;
            storedKey = from_hex hashHex
        in (case scrypt password salt 64 of
              Inl e \<Rightarrow> Inl e
            | Inr derivedKey \<Rightarrow> timingSafeEqual storedKey derivedKey))"

text \<open>\<^verbatim>\<open>verifyPassword\<close>: the \<^verbatim>\<open>catch\<close> clause turns every fault of the body into
  \<^verbatim>\<open>false\<close>.\<close>

definition verifyPassword :: "scrypt_fn \<Rightarrow> string \<Rightarrow> string \<Rightarrow> error + bool" where
  "verifyPassword scrypt password storedHash =
     (case verifyPassword_try scrypt password storedHash of
        Inl e \<Rightarrow> Inr False
      | Inr b \<Rightarrow> Inr b)"

text \<open>\<open>rnd\<close> is the value of \<^verbatim>\<open>randomBytes(32)\<close>, respectively \<^verbatim>\<open>randomBytes(16)\<close>.\<close>

definition generateSessionId :: "byte list \<Rightarrow> string" where
  "generateSessionId rnd = to_hex rnd"

definition generateUserId :: "byte list \<Rightarrow> string" where
  "generateUserId rnd = to_hex rnd"

subsection \<open>Session token codec (\<^verbatim>\<open>src/crypto.ts\<close>)\<close>

text \<open>\<open>hmac secret msg\<close> stands for
  \<^verbatim>\<open>createHmac("sha256", secret).update(msg)\<close>, a 256-bit digest.\<close>

type_synonym hmac_fn = "string \<Rightarrow> string \<Rightarrow> 256 word"

definition signSessionId :: "hmac_fn \<Rightarrow> string \<Rightarrow> string \<Rightarrow> string" where
  "signSessionId hmac sessionId secret =
     (let signature = base64url (digest_bytes (hmac secret sessionId))
      in sessionId @ ''.'' @ signature)"

definition verifySessionId :: "hmac_fn \<Rightarrow> string \<Rightarrow> string \<Rightarrow> error + string option" where
  "verifySessionId hmac token secret =
     (let parts = str_split CHR ''.'' token in
      if length parts \<noteq> 2 then Inr None
      else
        let sessionId = parts ! 0;
            signature = parts ! 1
        in if sessionId = [] \<or> signature = [] then Inr None
           else
             let expectedSignature = base64url (digest_bytes (hmac secret sessionId));
                 signatureBuf = Buffer_from signature;
                 expectedBuf = Buffer_from expectedSignature
             in if length signatureBuf \<noteq> length expectedBuf then Inr None
                else (case timingSafeEqual signatureBuf expectedBuf of
                        Inl e \<Rightarrow> Inl e
                      | Inr eq \<Rightarrow> if eq then Inr (Some sessionId) else Inr None))"

subsection \<open>Data model (\<^verbatim>\<open>src/types.ts\<close>)\<close>

record User =
  u_id :: string
  u_email :: string
  u_hashedPassword :: string
  u_createdAt :: int

record Session =
  s_id :: string
  s_userId :: string
  s_expiresAt :: int
  s_createdAt :: int

text \<open>Objects handed back to the caller are kept as property lists, so that which
  properties an object literal carries is part of the model.\<close>

datatype jsval = JString string | JDate int | JObject "(string \<times> jsval) list"

fun get_prop :: "string \<Rightarrow> jsval \<Rightarrow> jsval option" where
  "get_prop k (JObject ps) = map_of ps k"
| "get_prop k _ = None"

fun obj_keys :: "jsval \<Rightarrow> string list" where
  "obj_keys (JObject ps) = map fst ps"
| "obj_keys _ = []"

definition Session_obj :: "Session \<Rightarrow> jsval" where
  "Session_obj s =
     JObject [(''id'', JString (s_id s)), (''userId'', JString (s_userId s)),
              (''expiresAt'', JDate (s_expiresAt s)), (''createdAt'', JDate (s_createdAt s))]"

datatype duration = Num int | Str string

record FineAuthConfig =
  cfg_secret :: string
  cfg_method :: "bool option option"
  cfg_db :: bool
  cfg_session :: "duration option option"

record FineAuth =
  config :: FineAuthConfig
  sessionExpiresIn :: int

subsection \<open>In-memory adapter (\<^verbatim>\<open>createMemoryAdapter\<close>)\<close>

text \<open>The three \<^verbatim>\<open>Map\<close>s of the adapter, and beside them the list of Storage Contract
  calls made so far (the adapter does not keep it; it records what was asked of storage).\<close>

datatype call =
    CreateUser string string
  | GetUserByEmail string
  | GetUserById string
  | CreateSession string string int
  | GetSession string
  | DeleteSession string
  | DeleteUserSessions string

record store =
  users :: "string \<rightharpoonup> User"
  sessions :: "string \<rightharpoonup> Session"
  emailIndex :: "string \<rightharpoonup> string"

record state =
  db :: store
  calls :: "call list"

definition createUser :: "string \<Rightarrow> string \<Rightarrow> byte list \<Rightarrow> int \<Rightarrow> state \<Rightarrow> User \<times> state" where
  "createUser email hashedPassword rnd now st =
     (let ident = generateUserId rnd;
          user = \<lparr>u_id = ident, u_email = email, u_hashedPassword = hashedPassword,
                  u_createdAt = now\<rparr>
      in (user,
          st\<lparr>db := (db st)\<lparr>users := (users (db st))(ident \<mapsto> user),
                            emailIndex := (emailIndex (db st))(toLowerCase email \<mapsto> ident)\<rparr>,
             calls := calls st @ [CreateUser email hashedPassword]\<rparr>))"

definition getUserByEmail :: "string \<Rightarrow> state \<Rightarrow> User option \<times> state" where
  "getUserByEmail email st =
     ((case emailIndex (db st) (toLowerCase email) of
         None \<Rightarrow> None
       | Some userId \<Rightarrow> if userId = [] then None else users (db st) userId),
      st\<lparr>calls := calls st @ [GetUserByEmail email]\<rparr>)"

definition getUserById :: "string \<Rightarrow> state \<Rightarrow> User option \<times> state" where
  "getUserById ident st = (users (db st) ident, st\<lparr>calls := calls st @ [GetUserById ident]\<rparr>)"

definition createSession :: "string \<Rightarrow> string \<Rightarrow> int \<Rightarrow> int \<Rightarrow> state \<Rightarrow> Session \<times> state" where
  "createSession ident userId expiresAt now st =
     (let session = \<lparr>s_id = ident, s_userId = userId, s_expiresAt = expiresAt,
                     s_createdAt = now\<rparr>
      in (session,
          st\<lparr>db := (db st)\<lparr>sessions := (sessions (db st))(ident \<mapsto> session)\<rparr>,
             calls := calls st @ [CreateSession ident userId expiresAt]\<rparr>))"

definition getSession :: "string \<Rightarrow> state \<Rightarrow> Session option \<times> state" where
  "getSession ident st = (sessions (db st) ident, st\<lparr>calls := calls st @ [GetSession ident]\<rparr>)"

definition deleteSession :: "string \<Rightarrow> state \<Rightarrow> state" where
  "deleteSession ident st =
     st\<lparr>db := (db st)\<lparr>sessions := (sessions (db st))(ident := None)\<rparr>,
        calls := calls st @ [DeleteSession ident]\<rparr>"

definition deleteUserSessions :: "string \<Rightarrow> state \<Rightarrow> state" where
  "deleteUserSessions userId st =
     st\<lparr>db := (db st)\<lparr>sessions :=
            (\<lambda>k. case sessions (db st) k of
                    None \<Rightarrow> None
                  | Some s \<Rightarrow> if s_userId s = userId then None else Some s)\<rparr>,
        calls := calls st @ [DeleteUserSessions userId]\<rparr>"

definition empty_state :: state where
  "empty_state =
     \<lparr>db = \<lparr>users = Map.empty, sessions = Map.empty, emailIndex = Map.empty\<rparr>, calls = []\<rparr>"

subsection \<open>Session lifecycle manager (\<^verbatim>\<open>src/auth.ts\<close>)\<close>







definition toSafeUser :: "User \<Rightarrow> jsval" where
  "toSafeUser user =
     JObject [(''id'', JString (u_id user)), (''email'', JString (u_email user)),
              (''createdAt'', JDate (u_createdAt user))]"

text \<open>What one call of \<^verbatim>\<open>signUp\<close> or \<^verbatim>\<open>signIn\<close> draws from the outside: the random bytes
  of the salt, of the user id and of the session id, and the clock readings of
  \<^verbatim>\<open>new Date()\<close> in \<^verbatim>\<open>createUser\<close>, of \<^verbatim>\<open>Date.now()\<close> for \<^verbatim>\<open>expiresAt\<close> and of
  \<^verbatim>\<open>new Date()\<close> in \<^verbatim>\<open>createSession\<close>, in this order.\<close>

record env =
  rnd_salt :: "byte list"
  rnd_userId :: "byte list"
  rnd_sessionId :: "byte list"
  now_createUser :: int
  now_expiry :: int
  now_createSession :: int

definition signUp ::
  "scrypt_fn \<Rightarrow> FineAuth \<Rightarrow> string \<Rightarrow> string \<Rightarrow> env \<Rightarrow> state \<Rightarrow> (error + jsval) \<times> state" where
  "signUp scrypt auth email password e st =
     (let normalizedEmail = toLowerCase (trim email);
          (existingUser, st1) = getUserByEmail normalizedEmail st
      in case existingUser of
           Some u \<Rightarrow> (Inl UserAlreadyExistsError, st1)
         | None \<Rightarrow>
             (case hashPassword scrypt (rnd_salt e) password of
                Inl err \<Rightarrow> (Inl err, st1)
              | Inr hashedPassword \<Rightarrow>
                  let (user, st2) =
                        createUser normalizedEmail hashedPassword (rnd_userId e)
                          (now_createUser e) st1;
                      (session, st3) =
                        createSession (generateSessionId (rnd_sessionId e)) (u_id user)
                          (now_expiry e + sessionExpiresIn auth) (now_createSession e) st2
                  in (Inr (JObject [(''user'', toSafeUser user),
                                    (''session'', Session_obj session)]), st3)))"

definition signIn ::
  "scrypt_fn \<Rightarrow> FineAuth \<Rightarrow> string \<Rightarrow> string \<Rightarrow> env \<Rightarrow> state \<Rightarrow> (error + jsval) \<times> state" where
  "signIn scrypt auth email password e st =
     (let normalizedEmail = toLowerCase (trim email);
          (user, st1) = getUserByEmail normalizedEmail st
      in case user of
           None \<Rightarrow> (Inl InvalidCredentialsError, st1)
         | Some user \<Rightarrow>
             (case verifyPassword scrypt password (u_hashedPassword user) of
                Inl err \<Rightarrow> (Inl err, st1)
              | Inr isValidPassword \<Rightarrow>
                  if \<not> isValidPassword then (Inl InvalidCredentialsError, st1)
                  else
                    let (session, st2) =
                          createSession (generateSessionId (rnd_sessionId e)) (u_id user)
                            (now_expiry e + sessionExpiresIn auth) (now_createSession e) st1
                    in (Inr (JObject [(''user'', toSafeUser user),
                                      (''session'', Session_obj session)]), st2)))"

text \<open>\<^verbatim>\<open>validateSession\<close>; \<open>now\<close> is the reading of \<^verbatim>\<open>new Date()\<close>, \<open>None\<close> is
  \<^verbatim>\<open>null\<close>.\<close>

definition validateSession :: "FineAuth \<Rightarrow> string \<Rightarrow> int \<Rightarrow> state \<Rightarrow> jsval option \<times> state" where
  "validateSession auth sessionId now st =
     (let (session, st1) = getSession sessionId st
      in case session of
           None \<Rightarrow> (None, st1)
         | Some session \<Rightarrow>
             if now > s_expiresAt session then (None, deleteSession sessionId st1)
             else
               let (user, st2) = getUserById (s_userId session) st1
               in case user of
                    None \<Rightarrow> (None, deleteSession sessionId st2)
                  | Some user \<Rightarrow>
                      (Some (JObject [(''user'', toSafeUser user),
                                      (''session'', Session_obj session)]), st2))"

definition signOut :: "FineAuth \<Rightarrow> string \<Rightarrow> state \<Rightarrow> state" where
  "signOut auth sessionId st = deleteSession sessionId st"

definition signOutAll :: "FineAuth \<Rightarrow> string \<Rightarrow> state \<Rightarrow> state" where
  "signOutAll auth userId st = deleteUserSessions userId st"

subsection \<open>Stand-ins for running the model\<close>

text \<open>Stand-ins for the two primitives of \<^verbatim>\<open>node:crypto\<close>, used only where the model
  is run on a concrete input. Every general theorem below holds for all \<open>hmac\<close> and
  \<open>scrypt\<close>.\<close>

definition demo_hmac :: hmac_fn where
  "demo_hmac secret msg = of_nat (length secret * 257 + length msg)"

definition demo_scrypt :: scrypt_fn where
  "demo_scrypt password salt keylen =
     Inr (map (\<lambda>i. of_nat (length password + length salt + i)) [0..<keylen])"

definition failing_scrypt :: scrypt_fn where
  "failing_scrypt password salt keylen = Inl (NodeError ''scrypt failed'')"

text \<open>A constructed \<^verbatim>\<open>FineAuth\<close> with the default TTL, the draws of one sign-up, and the
  state of a fresh adapter after that sign-up.\<close>

definition demo_config :: FineAuthConfig where
  "demo_config =
     \<lparr>cfg_secret = ''test-secret-key'', cfg_method = Some (Some True), cfg_db = True,
      cfg_session = None\<rparr>"

definition demo_auth :: FineAuth where
  "demo_auth = \<lparr>config = demo_config, sessionExpiresIn = 604800000\<rparr>"

definition demo_env :: env where
  "demo_env =
     \<lparr>rnd_salt = [1, 2, 3, 4, 5, 6, 7, 8, 9, 10, 11, 12, 13, 14, 15, 16],
      rnd_userId = [161, 162, 163, 164, 165, 166, 167, 168, 169, 170, 171, 172, 173, 174,
                    175, 176],
      rnd_sessionId = [0, 1, 2, 3, 4, 5, 6, 7, 8, 9, 10, 11, 12, 13, 14, 15,
                       16, 17, 18, 19, 20, 21, 22, 23, 24, 25, 26, 27, 28, 29, 30, 31],
      now_createUser = 1000, now_expiry = 1001, now_createSession = 1002\<rparr>"

definition demo_state :: state where
  "demo_state = snd (signUp demo_scrypt demo_auth ''a@b.com'' ''pw123456'' demo_env empty_state)"

definition demo_sessionId :: string where
  "demo_sessionId = ''000102030405060708090a0b0c0d0e0f101112131415161718191a1b1c1d1e1f''"

definition demo_userId :: string where
  "demo_userId = ''a1a2a3a4a5a6a7a8a9aaabacadaeafb0''"

text \<open>The user and the session that this sign-up stores, the object it returns,
  and the draws and the result of a later sign-in of the same user.\<close>

definition demo_user :: User where
  "demo_user =
     \<lparr>u_id = demo_userId, u_email = ''a@b.com'',
      u_hashedPassword = ''0102030405060708090a0b0c0d0e0f10:18191a1b1c1d1e1f202122232425262728292a2b2c2d2e2f303132333435363738393a3b3c3d3e3f404142434445464748494a4b4c4d4e4f5051525354555657'',
      u_createdAt = 1000\<rparr>"

definition demo_session :: Session where
  "demo_session =
     \<lparr>s_id = demo_sessionId, s_userId = demo_userId, s_expiresAt = 604801001,
      s_createdAt = 1002\<rparr>"

definition demo_result :: jsval where
  "demo_result =
     JObject [(''user'', toSafeUser demo_user), (''session'', Session_obj demo_session)]"

definition later_env :: env where
  "later_env =
     demo_env\<lparr>rnd_sessionId := [255, 254, 253, 252, 251, 250, 249, 248, 247, 246, 245, 244,
                                  243, 242, 241, 240, 239, 238, 237, 236, 235, 234, 233, 232,
                                  231, 230, 229, 228, 227, 226, 225, 224],
              now_expiry := 3000, now_createSession := 3001\<rparr>"

definition later_result :: jsval where
  "later_result =
     JObject [(''user'', toSafeUser demo_user),
              (''session'', Session_obj
                 \<lparr>s_id = ''fffefdfcfbfaf9f8f7f6f5f4f3f2f1f0efeeedecebeae9e8e7e6e5e4e3e2e1e0'',
                  s_userId = demo_userId, s_expiresAt = 604803000, s_createdAt = 3001\<rparr>)]"








text \<open>The key that the stand-in scrypt derives for this sign-up.\<close>

definition demo_key :: "byte list" where
  "demo_key = from_hex ''18191a1b1c1d1e1f202122232425262728292a2b2c2d2e2f303132333435363738393a3b3c3d3e3f404142434445464748494a4b4c4d4e4f5051525354555657''"

text \<open>The key that the stand-in scrypt derives for the two-byte salt 01 02.\<close>

definition short_salt_key :: "byte list" where
  "short_salt_key = from_hex ''0a0b0c0d0e0f101112131415161718191a1b1c1d1e1f202122232425262728292a2b2c2d2e2f303132333435363738393a3b3c3d3e3f40414243444546474849''"

text \<open>A store holding one session whose user does not exist.\<close>

definition orphan_state :: state where
  "orphan_state = snd (createSession ''s1'' ''ghost'' 5000 1000 empty_state)"

subsection \<open>Properties of returned objects\<close>

text \<open>The \<^verbatim>\<open>user\<close> property of a result is an object with exactly the properties
  \<^verbatim>\<open>id\<close>, \<^verbatim>\<open>email\<close> and \<^verbatim>\<open>createdAt\<close>, and so without \<^verbatim>\<open>hashedPassword\<close>.\<close>

definition safe_user_of :: "jsval \<Rightarrow> bool" where
  "safe_user_of r =
     (case get_prop ''user'' r of
        None \<Rightarrow> False
      | Some u \<Rightarrow> obj_keys u = [''id'', ''email'', ''createdAt'']
                  \<and> get_prop ''hashedPassword'' u = None)"

text \<open>The \<^verbatim>\<open>id\<close> of the \<^verbatim>\<open>user\<close> property of a result.\<close>

definition user_id_of :: "jsval \<Rightarrow> jsval option" where
  "user_id_of r = (case get_prop ''user'' r of None \<Rightarrow> None | Some u \<Rightarrow> get_prop ''id'' u)"

subsection \<open>Facts about the primitives\<close>

lemma str_split_not_Nil: "str_split c s \<noteq> []"
  by (induction s) (auto split: list.splits)

lemma str_split_no_sep: "c \<notin> set s \<Longrightarrow> str_split c s = [s]"
  by (induction s) auto

lemma str_split_append_sep:
  "c \<notin> set s \<Longrightarrow> str_split c (s @ c # t) = s # str_split c t"
  by (induction s) auto

lemma b64url_alphabet_length: "length b64url_alphabet = 64"
  by (simp add: b64url_alphabet_def)

lemma b64url_alphabet_no_dot: "CHR ''.'' \<notin> set b64url_alphabet"
  by (simp add: b64url_alphabet_def)

lemma b64_not_dot: "n < 64 \<Longrightarrow> CHR ''.'' \<noteq> b64 n"
proof
  assume n: "n < 64" and eq: "CHR ''.'' = b64 n"
  from n have "b64url_alphabet ! n \<in> set b64url_alphabet"
    by (intro nth_mem) (simp add: b64url_alphabet_length)
  with eq have "CHR ''.'' \<in> set b64url_alphabet"
    by (simp add: b64_def)
  with b64url_alphabet_no_dot show False by contradiction
qed

lemma unat_byte_lt: "unat (b :: byte) < 256"
  using unsigned_less [of b] by simp

lemma base64url_no_dot: "CHR ''.'' \<notin> set (base64url bs)"
proof (induction bs rule: base64url.induct)
  case (1 a b c rest)
  have "unat a < 256" "unat b < 256" "unat c < 256" by (rule unat_byte_lt)+
  then have "unat a div 4 < 64" "(unat a mod 4) * 16 + unat b div 16 < 64"
    "(unat b mod 16) * 4 + unat c div 64 < 64" "unat c mod 64 < 64"
    by arith+
  with 1 show ?case by (simp add: b64_not_dot)
next
  case (2 a b)
  have "unat a < 256" "unat b < 256" by (rule unat_byte_lt)+
  then have "unat a div 4 < 64" "(unat a mod 4) * 16 + unat b div 16 < 64"
    "(unat b mod 16) * 4 < 64"
    by arith+
  then show ?case by (simp add: b64_not_dot)
next
  case (3 a)
  have "unat a < 256" by (rule unat_byte_lt)
  then have "unat a div 4 < 64" "(unat a mod 4) * 16 < 64" by arith+
  then show ?case by (simp add: b64_not_dot)
next
  case 4
  show ?case by simp
qed

lemma base64url_not_Nil: "bs \<noteq> [] \<Longrightarrow> base64url bs \<noteq> []"
  by (induction bs rule: base64url.induct) auto

lemma digest_bytes_not_Nil: "digest_bytes d \<noteq> []"
  by (simp add: digest_bytes_def)

lemma signature_wellformed:
  "base64url (digest_bytes d) \<noteq> [] \<and> CHR ''.'' \<notin> set (base64url (digest_bytes d))"
  by (simp add: base64url_no_dot base64url_not_Nil digest_bytes_not_Nil)

lemma hex_digit_facts:
  "\<forall>n\<in>set [0..<16]. hex_val (hex_digit n) = Some n \<and> hex_digit n \<noteq> CHR '':''"
  by code_simp

lemma hex_val_digit: "n < 16 \<Longrightarrow> hex_val (hex_digit n) = Some n"
  using hex_digit_facts by simp

lemma hex_digit_not_colon: "n < 16 \<Longrightarrow> hex_digit n \<noteq> CHR '':''"
  using hex_digit_facts by simp

lemma byte_nibbles: "unat (b :: byte) div 16 < 16" "unat b mod 16 < 16"
  using unat_byte_lt [of b] by arith+

lemma from_hex_byte: "from_hex (hex_of_byte b @ rest) = b # from_hex rest"
  by (simp add: hex_of_byte_def hex_val_digit byte_nibbles)

lemma from_hex_to_hex: "from_hex (to_hex bs) = bs"
  by (induction bs) (simp_all add: to_hex_def from_hex_byte)

lemma hex_of_byte_no_colon: "CHR '':'' \<notin> set (hex_of_byte b)"
  using hex_digit_not_colon [OF byte_nibbles(1), of b] hex_digit_not_colon [OF byte_nibbles(2), of b]
  by (auto simp: hex_of_byte_def)

lemma to_hex_no_colon: "CHR '':'' \<notin> set (to_hex bs)"
  by (induction bs) (simp_all add: to_hex_def hex_of_byte_no_colon)

lemma to_hex_Nil_iff: "to_hex bs = [] \<longleftrightarrow> bs = []"
  by (cases bs) (simp_all add: to_hex_def hex_of_byte_def)

lemma split_stored_hash:
  "str_split CHR '':'' (to_hex salt @ CHR '':'' # to_hex key) = [to_hex salt, to_hex key]"
  by (simp add: str_split_append_sep str_split_no_sep to_hex_no_colon)

lemma verifyPassword_hashPassword:
  assumes "scrypt password salt 64 = Inr key" "salt \<noteq> []" "key \<noteq> []"
  shows "verifyPassword scrypt password (to_hex salt @ '':'' @ to_hex key) = Inr True"
  using assms
  by (simp add: verifyPassword_def verifyPassword_try_def split_stored_hash to_hex_Nil_iff
      from_hex_to_hex timingSafeEqual_def Let_def)

lemma verifyPassword_total: "\<exists>b. verifyPassword scrypt password storedHash = Inr b"
  by (cases "verifyPassword_try scrypt password storedHash") (auto simp add: verifyPassword_def)

subsection \<open>The operations, case by case\<close>

lemma safe_user_of_result [simp]:
  "safe_user_of (JObject [(''user'', toSafeUser u), (''session'', s)])"
  by (simp add: safe_user_of_def toSafeUser_def)

lemma signUp_cases:
  "signUp scrypt auth email password e st =
     (let n = toLowerCase (trim email); st1 = st\<lparr>calls := calls st @ [GetUserByEmail n]\<rparr> in
      case fst (getUserByEmail n st) of
        Some u \<Rightarrow> (Inl UserAlreadyExistsError, st1)
      | None \<Rightarrow>
          (case hashPassword scrypt (rnd_salt e) password of
             Inl err \<Rightarrow> (Inl err, st1)
           | Inr h \<Rightarrow>
               let u = fst (createUser n h (rnd_userId e) (now_createUser e) st1);
                   st2 = snd (createUser n h (rnd_userId e) (now_createUser e) st1);
                   r = createSession (generateSessionId (rnd_sessionId e)) (u_id u)
                         (now_expiry e + sessionExpiresIn auth) (now_createSession e) st2
               in (Inr (JObject [(''user'', toSafeUser u), (''session'', Session_obj (fst r))]),
                   snd r)))"
  by (simp add: signUp_def getUserByEmail_def Let_def split: prod.splits option.splits sum.splits)

lemma signIn_cases:
  "signIn scrypt auth email password e st =
     (let n = toLowerCase (trim email); st1 = st\<lparr>calls := calls st @ [GetUserByEmail n]\<rparr> in
      case fst (getUserByEmail n st) of
        None \<Rightarrow> (Inl InvalidCredentialsError, st1)
      | Some u \<Rightarrow>
          (case verifyPassword scrypt password (u_hashedPassword u) of
             Inl err \<Rightarrow> (Inl err, st1)
           | Inr ok \<Rightarrow>
               if \<not> ok then (Inl InvalidCredentialsError, st1)
               else
                 let r = createSession (generateSessionId (rnd_sessionId e)) (u_id u)
                           (now_expiry e + sessionExpiresIn auth) (now_createSession e) st1
                 in (Inr (JObject [(''user'', toSafeUser u), (''session'', Session_obj (fst r))]),
                     snd r)))"
  by (simp add: signIn_def getUserByEmail_def Let_def split: prod.splits option.splits sum.splits)

lemma validateSession_cases:
  "validateSession auth sid now st =
     (let st1 = st\<lparr>calls := calls st @ [GetSession sid]\<rparr> in
      case sessions (db st) sid of
        None \<Rightarrow> (None, st1)
      | Some s \<Rightarrow>
          if now > s_expiresAt s then (None, deleteSession sid st1)
          else
            let st2 = st1\<lparr>calls := calls st1 @ [GetUserById (s_userId s)]\<rparr> in
            case users (db st) (s_userId s) of
              None \<Rightarrow> (None, deleteSession sid st2)
            | Some u \<Rightarrow>
                (Some (JObject [(''user'', toSafeUser u), (''session'', Session_obj s)]), st2))"
  by (simp add: validateSession_def getSession_def getUserById_def Let_def
      split: prod.splits option.splits)

lemma canonical_emails:
  "toLowerCase (trim '' User@Example.COM '') = ''user@example.com''"
  "toLowerCase (trim ''user@example.com'') = ''user@example.com''"
  "toLowerCase ''user@example.com'' = ''user@example.com''"
  by code_simp+

lemma to_hex_not_Nil: "length bs = 16 \<Longrightarrow> to_hex bs \<noteq> []"
  by (auto simp: to_hex_Nil_iff)


lemma validateSession_first_call:
  "\<exists>rest. calls (snd (validateSession auth token now st)) = calls st @ GetSession token # rest"
  by (auto simp: validateSession_cases deleteSession_def Let_def split: option.splits)

lemma auth_result_keys:
  "(fst (signUp scrypt auth email password e st) = Inr r \<longrightarrow>
      obj_keys r = [''user'', ''session''])
   \<and> (fst (signIn scrypt auth email password e st) = Inr r \<longrightarrow>
      obj_keys r = [''user'', ''session''])"
  by (auto simp: signUp_cases signIn_cases Let_def split: option.splits sum.splits if_splits)

section \<open>The claims\<close>

subsection \<open>C1: stateless check before storage\<close>

text \<open>
  C1 says that \<^verbatim>\<open>validateSession\<close> first runs \<^verbatim>\<open>verifySessionId\<close> on the token and, when
  that fails, returns \<^verbatim>\<open>null\<close> without any storage call. The \<^verbatim>\<open>validateSession\<close> of
  \<^verbatim>\<open>src/auth.ts\<close> never calls \<^verbatim>\<open>verifySessionId\<close>: it hands its argument to
  \<^verbatim>\<open>getSession\<close> as it is. Evaluated on the store left by one sign-up: the bare session
  id does not verify as a token, yet it validates, after two storage calls; a token
  without a dot does not verify either, yet storage is asked for it; and the token signed
  for the stored session verifies, yet it does not validate.
\<close>

theorem validateSession_skips_token_verification:
  "verifySessionId demo_hmac demo_sessionId (cfg_secret (config demo_auth)) = Inr None
   \<and> fst (validateSession demo_auth demo_sessionId 2000 demo_state) = Some demo_result
   \<and> calls (snd (validateSession demo_auth demo_sessionId 2000 demo_state)) =
       calls demo_state @ [GetSession demo_sessionId, GetUserById demo_userId]
   \<and> verifySessionId demo_hmac ''invalid-token-format'' (cfg_secret (config demo_auth))
       = Inr None
   \<and> calls (snd (validateSession demo_auth ''invalid-token-format'' 2000 demo_state)) =
       calls demo_state @ [GetSession ''invalid-token-format'']
   \<and> verifySessionId demo_hmac
         (signSessionId demo_hmac demo_sessionId (cfg_secret (config demo_auth)))
         (cfg_secret (config demo_auth)) = Inr (Some demo_sessionId)
   \<and> fst (validateSession demo_auth
            (signSessionId demo_hmac demo_sessionId (cfg_secret (config demo_auth)))
            2000 demo_state) = None"
  by code_simp

subsection \<open>C2: the signed token in the result\<close>

text \<open>
  C2 says that a successful \<^verbatim>\<open>signUp\<close> or \<^verbatim>\<open>signIn\<close> returns the user, the session and
  the signed token. The object literal returned by \<^verbatim>\<open>src/auth.ts\<close> has the two properties
  \<^verbatim>\<open>user\<close> and \<^verbatim>\<open>session\<close>; \<^verbatim>\<open>signSessionId\<close> is never called and there is no
  \<^verbatim>\<open>token\<close> property. Evaluated on one sign-up and one later sign-in:
\<close>

theorem signUp_result_has_no_token:
  "fst (signUp demo_scrypt demo_auth ''a@b.com'' ''pw123456'' demo_env empty_state)
     = Inr demo_result
   \<and> obj_keys demo_result = [''user'', ''session'']
   \<and> get_prop ''token'' demo_result = None
   \<and> fst (signIn demo_scrypt demo_auth ''a@b.com'' ''pw123456'' later_env demo_state)
       = Inr later_result
   \<and> obj_keys later_result = [''user'', ''session'']
   \<and> get_prop ''token'' later_result = None"
  by code_simp

subsection \<open>C3: token codec round trip\<close>

text \<open>
  C3 as stated (the round trip holds for every session id, also the empty one and ones
  that contain the delimiter) fails: \<^verbatim>\<open>verifySessionId\<close> rejects a token whose split
  on \<^verbatim>\<open>"."\<close> does not give exactly two non-empty parts, so the token signed for the
  empty id and the token signed for \<^verbatim>\<open>"a.b"\<close> both verify to \<^verbatim>\<open>null\<close>.
\<close>

theorem roundtrip_fails_for_empty_or_dotted_id:
  "verifySessionId demo_hmac (signSessionId demo_hmac [] ''k'') ''k'' = Inr None
   \<and> verifySessionId demo_hmac (signSessionId demo_hmac ''a.b'' ''k'') ''k'' = Inr None"
  by code_simp

text \<open>
  C3, amended: for every secret \<open>k\<close> and every session id \<open>s\<close> that is not empty and does
  not contain \<^verbatim>\<open>"."\<close> (as every id made by \<^verbatim>\<open>generateSessionId\<close>, a hex string),
  \<^verbatim>\<open>verifySessionId(signSessionId(s, k), k)\<close> returns \<open>s\<close>, whatever the digest function.
\<close>

theorem verifySessionId_signSessionId_roundtrip:
  "s \<noteq> [] \<Longrightarrow> CHR ''.'' \<notin> set s \<Longrightarrow>
   verifySessionId hmac (signSessionId hmac s k) k = Inr (Some s)"
  using signature_wellformed [of "hmac k s"]
  by (simp add: verifySessionId_def signSessionId_def str_split_append_sep str_split_no_sep
      timingSafeEqual_def Let_def)

theorem verifySessionId_signSessionId_roundtrip_witness:
  "demo_sessionId \<noteq> [] \<and> CHR ''.'' \<notin> set demo_sessionId
   \<and> verifySessionId demo_hmac (signSessionId demo_hmac demo_sessionId ''test-secret-key'')
        ''test-secret-key'' = Inr (Some demo_sessionId)"
proof -
  have h1: "demo_sessionId \<noteq> []" by code_simp
  have h2: "CHR ''.'' \<notin> set demo_sessionId" by code_simp
  from verifySessionId_signSessionId_roundtrip [OF h1 h2] h1 h2 show ?thesis by simp
qed

subsection \<open>C4: one error for both sign-in failures\<close>

text \<open>
  C4: a sign-in whose canonical email has no user and a sign-in whose user exists but
  whose password does not verify both fail with the same \<^verbatim>\<open>InvalidCredentialsError\<close>
  value (same name, code and message).
\<close>

theorem signIn_failures_same_error:
  assumes "fst (getUserByEmail (toLowerCase (trim email)) st) = None"
    and "fst (getUserByEmail (toLowerCase (trim email')) st') = Some u"
    and "verifyPassword scrypt password' (u_hashedPassword u) \<noteq> Inr True"
  shows "fst (signIn scrypt auth email password e st) = Inl InvalidCredentialsError
       \<and> fst (signIn scrypt auth email' password' e' st') = Inl InvalidCredentialsError"
proof -
  from verifyPassword_total [of scrypt password' "u_hashedPassword u"] assms(3)
  have "verifyPassword scrypt password' (u_hashedPassword u) = Inr False" by auto
  with assms(1,2) show ?thesis by (simp add: signIn_cases Let_def)
qed

theorem signIn_failures_same_error_witness:
  "fst (getUserByEmail (toLowerCase (trim ''nobody@example.com'')) demo_state) = None
   \<and> fst (getUserByEmail (toLowerCase (trim ''a@b.com'')) demo_state) = Some demo_user
   \<and> verifyPassword demo_scrypt ''wrongpassword'' (u_hashedPassword demo_user) \<noteq> Inr True
   \<and> fst (signIn demo_scrypt demo_auth ''nobody@example.com'' ''pw123456'' later_env demo_state)
       = Inl InvalidCredentialsError
   \<and> fst (signIn demo_scrypt demo_auth ''a@b.com'' ''wrongpassword'' later_env demo_state)
       = Inl InvalidCredentialsError"
proof -
  have h1: "fst (getUserByEmail (toLowerCase (trim ''nobody@example.com'')) demo_state) = None"
    by code_simp
  have h2: "fst (getUserByEmail (toLowerCase (trim ''a@b.com'')) demo_state) = Some demo_user"
    by code_simp
  have h3: "verifyPassword demo_scrypt ''wrongpassword'' (u_hashedPassword demo_user) \<noteq> Inr True"
    by code_simp
  from signIn_failures_same_error [OF h1 h2 h3, of demo_auth "''pw123456''" later_env later_env]
    h1 h2 h3
  show ?thesis by simp
qed

subsection \<open>C5: no credential hash in a returned user\<close>

text \<open>
  C5: the \<^verbatim>\<open>user\<close> object in every result of \<^verbatim>\<open>signUp\<close>, \<^verbatim>\<open>signIn\<close> and
  \<^verbatim>\<open>validateSession\<close> has exactly the properties \<^verbatim>\<open>id\<close>, \<^verbatim>\<open>email\<close> and \<^verbatim>\<open>createdAt\<close>;
  it has no \<^verbatim>\<open>hashedPassword\<close> property.
\<close>

theorem returned_user_has_no_hash:
  "(fst (signUp scrypt auth email password e st) = Inr r \<longrightarrow> safe_user_of r)
   \<and> (fst (signIn scrypt auth email password e st) = Inr r \<longrightarrow> safe_user_of r)
   \<and> (fst (validateSession auth sessionId now st) = Some r \<longrightarrow> safe_user_of r)"
  by (auto simp: signUp_cases signIn_cases validateSession_cases Let_def
      split: option.splits sum.splits if_splits)

theorem returned_user_has_no_hash_witness:
  "fst (signUp demo_scrypt demo_auth ''a@b.com'' ''pw123456'' demo_env empty_state)
     = Inr demo_result
   \<and> fst (signIn demo_scrypt demo_auth ''a@b.com'' ''pw123456'' later_env demo_state)
       = Inr later_result
   \<and> fst (validateSession demo_auth demo_sessionId 2000 demo_state) = Some demo_result
   \<and> safe_user_of demo_result \<and> safe_user_of later_result"
proof -
  have h1: "fst (signUp demo_scrypt demo_auth ''a@b.com'' ''pw123456'' demo_env empty_state)
      = Inr demo_result"
    by code_simp
  have h2: "fst (signIn demo_scrypt demo_auth ''a@b.com'' ''pw123456'' later_env demo_state)
      = Inr later_result"
    by code_simp
  have h3: "fst (validateSession demo_auth demo_sessionId 2000 demo_state) = Some demo_result"
    by code_simp
  from returned_user_has_no_hash [of demo_scrypt demo_auth "''a@b.com''" "''pw123456''" demo_env
      empty_state demo_result demo_sessionId 2000] h1
  have s1: "safe_user_of demo_result" by simp
  from returned_user_has_no_hash [of demo_scrypt demo_auth "''a@b.com''" "''pw123456''" later_env
      demo_state later_result demo_sessionId 2000] h2
  have s2: "safe_user_of later_result" by simp
  from returned_user_has_no_hash [of demo_scrypt demo_auth "''a@b.com''" "''pw123456''" later_env
      demo_state demo_result demo_sessionId 2000] h3
  have s3: "safe_user_of demo_result" by simp
  from h1 h2 h3 s1 s2 s3 show ?thesis by simp
qed

subsection \<open>C6: lazy expiry\<close>

text \<open>
  C6 as stated fails in its second half: a stored session whose \<^verbatim>\<open>expiresAt\<close> is not in
  the past is deleted by \<^verbatim>\<open>validateSession\<close> all the same when its user is missing
  (the orphan branch of the code). Here the session expires at 5000, is validated at 2000,
  and is gone afterwards.
\<close>

theorem validateSession_deletes_unexpired_orphan:
  "map_option s_expiresAt (sessions (db orphan_state) ''s1'') = Some 5000
   \<and> fst (validateSession demo_auth ''s1'' 2000 orphan_state) = None
   \<and> sessions (db (snd (validateSession demo_auth ''s1'' 2000 orphan_state))) ''s1'' = None
   \<and> calls (snd (validateSession demo_auth ''s1'' 2000 orphan_state)) =
       [CreateSession ''s1'' ''ghost'' 5000, GetSession ''s1'', GetUserById ''ghost'',
        DeleteSession ''s1'']"
  by code_simp

text \<open>
  C6, amended: for a session stored under \<open>sessionId\<close>, if its \<^verbatim>\<open>expiresAt\<close> is strictly
  earlier than the current time, \<^verbatim>\<open>validateSession\<close> returns \<^verbatim>\<open>null\<close>, calls
  \<^verbatim>\<open>getSession\<close> and then \<^verbatim>\<open>deleteSession\<close> with that id, and storage differs only in
  that the session is removed; if its \<^verbatim>\<open>expiresAt\<close> is not in the past and its user
  exists, validation succeeds, deletes nothing and leaves storage as it was.
\<close>

theorem validateSession_expiry:
  assumes "sessions (db st) sessionId = Some s"
  shows "(s_expiresAt s < now \<longrightarrow>
            fst (validateSession auth sessionId now st) = None
            \<and> db (snd (validateSession auth sessionId now st)) =
                (db st)\<lparr>sessions := (sessions (db st))(sessionId := None)\<rparr>
            \<and> calls (snd (validateSession auth sessionId now st)) =
                calls st @ [GetSession sessionId, DeleteSession sessionId])
       \<and> (\<not> s_expiresAt s < now \<and> users (db st) (s_userId s) \<noteq> None \<longrightarrow>
            fst (validateSession auth sessionId now st) \<noteq> None
            \<and> db (snd (validateSession auth sessionId now st)) = db st
            \<and> calls (snd (validateSession auth sessionId now st)) =
                calls st @ [GetSession sessionId, GetUserById (s_userId s)])"
  using assms
  by (auto simp: validateSession_cases deleteSession_def Let_def)

theorem validateSession_expiry_witness:
  "sessions (db demo_state) demo_sessionId = Some demo_session
   \<and> s_expiresAt demo_session < 604801002
   \<and> fst (validateSession demo_auth demo_sessionId 604801002 demo_state) = None
   \<and> calls (snd (validateSession demo_auth demo_sessionId 604801002 demo_state)) =
       calls demo_state @ [GetSession demo_sessionId, DeleteSession demo_sessionId]
   \<and> \<not> s_expiresAt demo_session < 2000
   \<and> users (db demo_state) (s_userId demo_session) \<noteq> None
   \<and> fst (validateSession demo_auth demo_sessionId 2000 demo_state) \<noteq> None
   \<and> db (snd (validateSession demo_auth demo_sessionId 2000 demo_state)) = db demo_state"
proof -
  have h1: "sessions (db demo_state) demo_sessionId = Some demo_session" by code_simp
  have h2: "s_expiresAt demo_session < 604801002" by code_simp
  have h3: "\<not> s_expiresAt demo_session < 2000" by code_simp
  have h4: "users (db demo_state) (s_userId demo_session) \<noteq> None" by code_simp
  from validateSession_expiry [OF h1, of 604801002 demo_auth]
    validateSession_expiry [OF h1, of 2000 demo_auth] h1 h2 h3 h4
  show ?thesis by simp
qed

subsection \<open>C7: password verification never throws\<close>

text \<open>
  C7: \<^verbatim>\<open>verifyPassword\<close> always fulfils with a boolean. It gives \<^verbatim>\<open>false\<close> when the
  split of the stored hash on \<^verbatim>\<open>":"\<close> is not exactly two non-empty parts, when the body
  of its \<^verbatim>\<open>try\<close> block faults in any way, when scrypt fails, and when the stored key and
  the derived key differ in length (where \<^verbatim>\<open>timingSafeEqual\<close> throws).
\<close>

theorem verifyPassword_never_throws:
  "(\<exists>b. verifyPassword scrypt password storedHash = Inr b)
   \<and> (\<not> (\<exists>a b. a \<noteq> [] \<and> b \<noteq> [] \<and> str_split CHR '':'' storedHash = [a, b]) \<longrightarrow>
        verifyPassword scrypt password storedHash = Inr False)
   \<and> (\<forall>err. verifyPassword_try scrypt password storedHash = Inl err \<longrightarrow>
        verifyPassword scrypt password storedHash = Inr False)
   \<and> (\<forall>a b err. str_split CHR '':'' storedHash = [a, b]
          \<and> scrypt password (from_hex a) 64 = Inl err \<longrightarrow>
        verifyPassword scrypt password storedHash = Inr False)
   \<and> (\<forall>a b key. str_split CHR '':'' storedHash = [a, b]
          \<and> scrypt password (from_hex a) 64 = Inr key
          \<and> length (from_hex b) \<noteq> length key \<longrightarrow>
        verifyPassword scrypt password storedHash = Inr False)"
proof (intro conjI allI impI)
  show "\<exists>b. verifyPassword scrypt password storedHash = Inr b"
    by (rule verifyPassword_total)
next
  assume "\<not> (\<exists>a b. a \<noteq> [] \<and> b \<noteq> [] \<and> str_split CHR '':'' storedHash = [a, b])"
  then have "length (str_split CHR '':'' storedHash) \<noteq> 2
      \<or> str_split CHR '':'' storedHash ! 0 = [] \<or> str_split CHR '':'' storedHash ! 1 = []"
    by (cases "str_split CHR '':'' storedHash" rule: list.exhaust)
       (auto simp: length_Suc_conv numeral_2_eq_2)
  then show "verifyPassword scrypt password storedHash = Inr False"
    by (auto simp add: verifyPassword_def verifyPassword_try_def Let_def)
next
  fix err assume "verifyPassword_try scrypt password storedHash = Inl err"
  then show "verifyPassword scrypt password storedHash = Inr False"
    by (simp add: verifyPassword_def)
next
  fix a b err
  assume "str_split CHR '':'' storedHash = [a, b] \<and> scrypt password (from_hex a) 64 = Inl err"
  then show "verifyPassword scrypt password storedHash = Inr False"
    by (simp add: verifyPassword_def verifyPassword_try_def Let_def)
next
  fix a b key
  assume "str_split CHR '':'' storedHash = [a, b]
          \<and> scrypt password (from_hex a) 64 = Inr key \<and> length (from_hex b) \<noteq> length key"
  then show "verifyPassword scrypt password storedHash = Inr False"
    by (simp add: verifyPassword_def verifyPassword_try_def Let_def timingSafeEqual_def)
qed

theorem verifyPassword_never_throws_witness:
  "\<not> (\<exists>a b. a \<noteq> [] \<and> b \<noteq> [] \<and> str_split CHR '':'' ''not-a-stored-hash'' = [a, b])
   \<and> verifyPassword demo_scrypt ''pw123456'' ''not-a-stored-hash'' = Inr False
   \<and> verifyPassword_try failing_scrypt ''pw123456'' ''0102:0304''
       = Inl (NodeError ''scrypt failed'')
   \<and> str_split CHR '':'' ''0102:0304'' = [''0102'', ''0304'']
   \<and> failing_scrypt ''pw123456'' (from_hex ''0102'') 64 = Inl (NodeError ''scrypt failed'')
   \<and> verifyPassword failing_scrypt ''pw123456'' ''0102:0304'' = Inr False
   \<and> demo_scrypt ''pw123456'' (from_hex ''0102'') 64 = Inr short_salt_key
   \<and> length (from_hex ''0304'') \<noteq> length short_salt_key
   \<and> verifyPassword demo_scrypt ''pw123456'' ''0102:0304'' = Inr False"
proof -
  have sp: "str_split CHR '':'' ''not-a-stored-hash'' = [''not-a-stored-hash'']" by code_simp
  have h1: "\<not> (\<exists>a b. a \<noteq> [] \<and> b \<noteq> [] \<and> str_split CHR '':'' ''not-a-stored-hash'' = [a, b])"
    by (simp add: sp)
  have h2: "verifyPassword_try failing_scrypt ''pw123456'' ''0102:0304''
      = Inl (NodeError ''scrypt failed'')" by code_simp
  have h3: "str_split CHR '':'' ''0102:0304'' = [''0102'', ''0304'']" by code_simp
  have h4: "failing_scrypt ''pw123456'' (from_hex ''0102'') 64 = Inl (NodeError ''scrypt failed'')"
    by code_simp
  have h5: "demo_scrypt ''pw123456'' (from_hex ''0102'') 64 = Inr short_salt_key"
    by code_simp
  have h6: "length (from_hex ''0304'') \<noteq> length short_salt_key"
    by code_simp
  from verifyPassword_never_throws [of demo_scrypt "''pw123456''" "''not-a-stored-hash''"] h1
  have c1: "verifyPassword demo_scrypt ''pw123456'' ''not-a-stored-hash'' = Inr False" by blast
  from verifyPassword_never_throws [of failing_scrypt "''pw123456''" "''0102:0304''"] h2 h3 h4
  have c2: "verifyPassword failing_scrypt ''pw123456'' ''0102:0304'' = Inr False" by blast
  from verifyPassword_never_throws [of demo_scrypt "''pw123456''" "''0102:0304''"] h3 h5 h6
  have c3: "verifyPassword demo_scrypt ''pw123456'' ''0102:0304'' = Inr False" by blast
  from h1 h2 h3 h4 h5 h6 c1 c2 c3 show ?thesis by blast
qed

subsection \<open>C8: canonical email\<close>

text \<open>
  C8: on a store with no user for \<^verbatim>\<open>user@example.com\<close>, signing up with
  \<^verbatim>\<open>" User@Example.COM "\<close> and then signing in with \<^verbatim>\<open>"user@example.com"\<close> and the same
  password both succeed and return the same user id, the one made by the sign-up. In both
  operations the first storage call is \<^verbatim>\<open>getUserByEmail("user@example.com")\<close>: the email
  is trimmed and lower-cased before any lookup. (scrypt is taken to return its 64 bytes,
  \<^verbatim>\<open>randomBytes(16)\<close> its 16.)
\<close>

theorem signUp_signIn_canonical_email:
  assumes fresh: "fst (getUserByEmail ''user@example.com'' st) = None"
    and kdf: "scrypt password (rnd_salt e1) 64 = Inr key" "length key = 64"
    and rnd: "length (rnd_salt e1) = 16" "length (rnd_userId e1) = 16"
  shows "map_sum id user_id_of (fst (signUp scrypt auth '' User@Example.COM '' password e1 st))
           = Inr (Some (JString (generateUserId (rnd_userId e1))))
       \<and> map_sum id user_id_of
            (fst (signIn scrypt auth ''user@example.com'' password e2
                   (snd (signUp scrypt auth '' User@Example.COM '' password e1 st))))
           = Inr (Some (JString (generateUserId (rnd_userId e1))))
       \<and> calls (snd (signUp scrypt auth '' User@Example.COM '' password e1 st))
           = calls st @
             [GetUserByEmail ''user@example.com'',
              CreateUser ''user@example.com'' (to_hex (rnd_salt e1) @ '':'' @ to_hex key),
              CreateSession (generateSessionId (rnd_sessionId e1))
                (generateUserId (rnd_userId e1)) (now_expiry e1 + sessionExpiresIn auth)]
       \<and> calls (snd (signIn scrypt auth ''user@example.com'' password e2
                   (snd (signUp scrypt auth '' User@Example.COM '' password e1 st))))
           = calls (snd (signUp scrypt auth '' User@Example.COM '' password e1 st)) @
             [GetUserByEmail ''user@example.com'',
              CreateSession (generateSessionId (rnd_sessionId e2))
                (generateUserId (rnd_userId e1)) (now_expiry e2 + sessionExpiresIn auth)]"
proof -
  let ?h = "to_hex (rnd_salt e1) @ '':'' @ to_hex key"
  let ?uid = "generateUserId (rnd_userId e1)"
  let ?u = "\<lparr>u_id = ?uid, u_email = ''user@example.com'', u_hashedPassword = ?h,
             u_createdAt = now_createUser e1\<rparr>"
  let ?st1 = "snd (signUp scrypt auth '' User@Example.COM '' password e1 st)"
  have uid: "?uid \<noteq> []"
    using rnd(2) by (simp add: generateUserId_def to_hex_not_Nil)
  have hp: "hashPassword scrypt (rnd_salt e1) password = Inr ?h"
    using kdf(1) by (simp add: hashPassword_def)
  have up: "signUp scrypt auth '' User@Example.COM '' password e1 st =
      (Inr (JObject [(''user'', toSafeUser ?u),
                     (''session'', Session_obj
                        \<lparr>s_id = generateSessionId (rnd_sessionId e1), s_userId = ?uid,
                         s_expiresAt = now_expiry e1 + sessionExpiresIn auth,
                         s_createdAt = now_createSession e1\<rparr>)]),
       snd (createSession (generateSessionId (rnd_sessionId e1)) ?uid
              (now_expiry e1 + sessionExpiresIn auth) (now_createSession e1)
              (snd (createUser ''user@example.com'' ?h (rnd_userId e1) (now_createUser e1)
                     (st\<lparr>calls := calls st @ [GetUserByEmail ''user@example.com'']\<rparr>)))))"
    using fresh hp
    by (simp add: signUp_cases canonical_emails Let_def createUser_def createSession_def)
  have look: "fst (getUserByEmail ''user@example.com'' ?st1) = Some ?u"
    using uid
    by (simp add: up getUserByEmail_def createUser_def createSession_def canonical_emails
        Let_def)
  have vp: "verifyPassword scrypt password ?h = Inr True"
    using kdf rnd(1) by (intro verifyPassword_hashPassword) auto
  have calls1: "calls ?st1 = calls st @
             [GetUserByEmail ''user@example.com'', CreateUser ''user@example.com'' ?h,
              CreateSession (generateSessionId (rnd_sessionId e1)) ?uid
                (now_expiry e1 + sessionExpiresIn auth)]"
    by (simp add: up createUser_def createSession_def Let_def)
  have r1: "map_sum id user_id_of (fst (signUp scrypt auth '' User@Example.COM '' password e1 st))
           = Inr (Some (JString ?uid))"
    by (simp add: up user_id_of_def toSafeUser_def)
  have r2: "map_sum id user_id_of (fst (signIn scrypt auth ''user@example.com'' password e2 ?st1))
           = Inr (Some (JString ?uid))"
    using look vp
    by (simp add: signIn_cases canonical_emails Let_def user_id_of_def toSafeUser_def)
  have calls2: "calls (snd (signIn scrypt auth ''user@example.com'' password e2 ?st1)) =
      calls ?st1 @ [GetUserByEmail ''user@example.com'',
              CreateSession (generateSessionId (rnd_sessionId e2)) ?uid
                (now_expiry e2 + sessionExpiresIn auth)]"
    using look vp
    by (simp add: signIn_cases canonical_emails Let_def createSession_def)
  from r1 r2 calls1 calls2 show ?thesis by blast
qed

theorem signUp_signIn_canonical_email_witness:
  "fst (getUserByEmail ''user@example.com'' empty_state) = None
   \<and> demo_scrypt ''pw123456'' (rnd_salt demo_env) 64 = Inr demo_key
   \<and> length demo_key = 64
   \<and> length (rnd_salt demo_env) = 16 \<and> length (rnd_userId demo_env) = 16
   \<and> map_sum id user_id_of
        (fst (signUp demo_scrypt demo_auth '' User@Example.COM '' ''pw123456'' demo_env
               empty_state))
       = Inr (Some (JString demo_userId))
   \<and> map_sum id user_id_of
        (fst (signIn demo_scrypt demo_auth ''user@example.com'' ''pw123456'' later_env
               (snd (signUp demo_scrypt demo_auth '' User@Example.COM '' ''pw123456'' demo_env
                      empty_state))))
       = Inr (Some (JString demo_userId))"
proof -
  have h1: "fst (getUserByEmail ''user@example.com'' empty_state) = None" by code_simp
  have h2: "demo_scrypt ''pw123456'' (rnd_salt demo_env) 64 = Inr demo_key" by code_simp
  have h3: "length demo_key = 64" by code_simp
  have h4: "length (rnd_salt demo_env) = 16" by code_simp
  have h5: "length (rnd_userId demo_env) = 16" by code_simp
  have uid: "generateUserId (rnd_userId demo_env) = demo_userId" by code_simp
  from signUp_signIn_canonical_email [of empty_state demo_scrypt "''pw123456''" demo_env
      demo_key demo_auth later_env, OF h1 h2 h3 h4 h5]
    h1 h2 h3 h4 h5 uid
  show ?thesis by simp
qed

subsection \<open>C9: failed operations write nothing\<close>

text \<open>
  C9: when \<^verbatim>\<open>signUp\<close> fails with \<^verbatim>\<open>UserAlreadyExistsError\<close>, and when \<^verbatim>\<open>signIn\<close> fails
  with \<^verbatim>\<open>InvalidCredentialsError\<close>, the three maps of the backend are what they were
  before the call (no user and no session was created), and the only storage call made is
  the \<^verbatim>\<open>getUserByEmail\<close> lookup.
\<close>

theorem failed_auth_leaves_storage_unchanged:
  "(fst (signUp scrypt auth email password e st) = Inl UserAlreadyExistsError \<longrightarrow>
      db (snd (signUp scrypt auth email password e st)) = db st
      \<and> calls (snd (signUp scrypt auth email password e st)) =
          calls st @ [GetUserByEmail (toLowerCase (trim email))])
   \<and> (fst (signIn scrypt auth email password e st) = Inl InvalidCredentialsError \<longrightarrow>
      db (snd (signIn scrypt auth email password e st)) = db st
      \<and> calls (snd (signIn scrypt auth email password e st)) =
          calls st @ [GetUserByEmail (toLowerCase (trim email))])"
  by (auto simp: signUp_cases signIn_cases Let_def
      split: option.splits sum.splits if_splits)

theorem failed_auth_leaves_storage_unchanged_witness:
  "fst (signUp demo_scrypt demo_auth '' A@B.com'' ''another-password'' later_env demo_state)
     = Inl UserAlreadyExistsError
   \<and> db (snd (signUp demo_scrypt demo_auth '' A@B.com'' ''another-password'' later_env
                demo_state)) = db demo_state
   \<and> fst (signIn demo_scrypt demo_auth ''a@b.com'' ''wrongpassword'' later_env demo_state)
     = Inl InvalidCredentialsError
   \<and> db (snd (signIn demo_scrypt demo_auth ''a@b.com'' ''wrongpassword'' later_env demo_state))
     = db demo_state"
proof -
  have h1: "fst (signUp demo_scrypt demo_auth '' A@B.com'' ''another-password'' later_env
      demo_state) = Inl UserAlreadyExistsError"
    by code_simp
  have h2: "fst (signIn demo_scrypt demo_auth ''a@b.com'' ''wrongpassword'' later_env demo_state)
      = Inl InvalidCredentialsError"
    by code_simp
  from failed_auth_leaves_storage_unchanged [of demo_scrypt demo_auth "'' A@B.com''"
      "''another-password''" later_env demo_state] h1
  have c1: "db (snd (signUp demo_scrypt demo_auth '' A@B.com'' ''another-password'' later_env
      demo_state)) = db demo_state"
    by blast
  from failed_auth_leaves_storage_unchanged [of demo_scrypt demo_auth "''a@b.com''"
      "''wrongpassword''" later_env demo_state] h2
  have c2: "db (snd (signIn demo_scrypt demo_auth ''a@b.com'' ''wrongpassword'' later_env
      demo_state)) = db demo_state"
    by blast
  from h1 h2 c1 c2 show ?thesis by blast
qed

subsection \<open>C10: a raw number as TTL\<close>




end
